theory Spec2Isabelle
  imports Complex_Main "HOL-Library.AList"
begin

section \<open>The inference front ends of code2mech/App\<close>

text \<open>
  The repository holds three Streamlit scripts.  \<^verbatim>\<open>Conjuagation_APP.py\<close> and
  \<^verbatim>\<open>GUI_Conjuagation.py\<close> take an uploaded model and share one \<^verbatim>\<open>run_inference\<close>
  (the two function bodies are the same text); \<^verbatim>\<open>Conjuagation_APP_V2.py\<close> downloads the
  model and has a shorter \<^verbatim>\<open>run_inference\<close> of its own.

  Everything the scripts reach outside themselves (the temporary-file module, the
  filesystem, the ONNX runtime, numpy's cast to float32, Python's formatting of values,
  the HTTP client) is a field of an environment record, and every theorem holds for all
  environments.  The filesystem, the calls made to the runtime and the widgets written
  to the page are the state that is passed along.
\<close>

subsection \<open>Values\<close>

type_synonym path = string
type_synonym bytes = string

text \<open>A Python exception: its class name and what \<^verbatim>\<open>str(e)\<close> gives.\<close>

datatype exn = PyExn (exn_kind: string) (str_exn: string)

text \<open>One entry of a declared shape: a size, a symbolic dimension or \<^verbatim>\<open>None\<close>.\<close>

datatype dim = Dim int | Sym string | NoDim

text \<open>\<^verbatim>\<open>NodeArg\<close>: what \<^verbatim>\<open>session.get_inputs()\<close> and \<^verbatim>\<open>session.get_outputs()\<close> list.\<close>

record node_arg =
  na_name :: string
  na_shape :: "dim list"

record session =
  get_inputs :: "node_arg list"
  get_outputs :: "node_arg list"

text \<open>A numpy array: its shape and its elements in row-major order.\<close>

record 'a ndarray =
  nd_shape :: "nat list"
  nd_data :: "'a list"

definition flatten :: "'a ndarray \<Rightarrow> 'a list" where
  "flatten a = nd_data a"

text \<open>
  \<^verbatim>\<open>np.array(values, dtype=np.float32)\<close> on a flat list, and on a list of rows;
  \<open>c\<close> is the cast of one element.
\<close>

definition np_array_1d :: "('f \<Rightarrow> 'g) \<Rightarrow> 'f list \<Rightarrow> 'g ndarray" where
  "np_array_1d c vs = \<lparr>nd_shape = [length vs], nd_data = map c vs\<rparr>"

definition np_array_2d :: "('f \<Rightarrow> 'g) \<Rightarrow> 'f list list \<Rightarrow> 'g ndarray" where
  "np_array_2d c rows =
     \<lparr>nd_shape = [length rows, (case rows of [] \<Rightarrow> 0 | r # _ \<Rightarrow> length r)],
      nd_data = concat (map (map c) rows)\<rparr>"

type_synonym 'g input_dict = "(string \<times> 'g ndarray) list"

text \<open>The pair \<^verbatim>\<open>(success, result)\<close> that \<^verbatim>\<open>run_inference\<close> returns.\<close>

datatype 'r result = Success 'r | Failure string

datatype ui_event =
    Subheader string
  | Text string
  | Write string
  | Warning string
  | Error string
  | Info string
  | DownloadButton string string string string

subsection \<open>The environment and the state\<close>

record response =
  status_code :: int
  content :: bytes

text \<open>
  \<open>str_value\<close> is the text an f-string puts for an array element, \<open>py_str\<close> what
  \<^verbatim>\<open>str\<close> gives for it, \<open>str_array\<close> and \<open>str_shape\<close> the text an f-string puts for an
  array and for a declared shape.
\<close>

record ('f, 'g) env =
  named_temp :: "(path \<rightharpoonup> bytes) \<Rightarrow> exn + path"
  write_error :: "path \<Rightarrow> bytes \<Rightarrow> exn option"
  load_model :: "bytes \<Rightarrow> exn + session"
  session_run :: "session \<Rightarrow> string list option \<Rightarrow> 'g input_dict \<Rightarrow> exn + 'g ndarray list"
  unlink_error :: "path \<Rightarrow> exn option"
  http_get :: "string \<Rightarrow> exn + response"
  float32 :: "'f \<Rightarrow> 'g"
  str_shape :: "dim list \<Rightarrow> string"
  str_value :: "'g \<Rightarrow> string"
  py_str :: "'g \<Rightarrow> string"
  str_array :: "'g list \<Rightarrow> string"

record 'g world =
  fs :: "path \<rightharpoonup> bytes"
  run_log :: "(string list option \<times> 'g input_dict) list"
  ui :: "ui_event list"

text \<open>
  \<^verbatim>\<open>with tempfile.NamedTemporaryFile(suffix='.onnx', delete=False) as tmp_file:
      tmp_file.write(data)\<close>
  The file is created exclusively, so a name that is taken is an error; it is created
  before anything is written and, with \<^verbatim>\<open>delete=False\<close>, leaving the block keeps it.
  The result is the exception of the block or the name of the file.  An error of the
  block is one of creating the file or of \<^verbatim>\<open>write\<close>; an error that would only come up
  when the block closes the file is not modelled.
\<close>

definition NamedTemporaryFile_write ::
  "('f, 'g) env \<Rightarrow> 'g world \<Rightarrow> bytes \<Rightarrow> (exn + path) \<times> 'g world" where
  "NamedTemporaryFile_write E w data =
     (case named_temp E (fs w) of
        Inl e \<Rightarrow> (Inl e, w)
      | Inr p \<Rightarrow>
          if fs w p \<noteq> None then (Inl (PyExn ''FileExistsError'' p), w)
          else (case write_error E p data of
                  Some e \<Rightarrow> (Inl e, w\<lparr>fs := (fs w)(p \<mapsto> [])\<rparr>)
                | None \<Rightarrow> (Inr p, w\<lparr>fs := (fs w)(p \<mapsto> data)\<rparr>)))"

text \<open>
  \<^verbatim>\<open>ort.InferenceSession(model_path)\<close>: the runtime reads the file at the path.  What
  it answers is taken to depend on the content of the file alone.
\<close>

definition InferenceSession ::
  "('f, 'g) env \<Rightarrow> 'g world \<Rightarrow> path \<Rightarrow> exn + session" where
  "InferenceSession E w p =
     (case fs w p of
        None \<Rightarrow> Inl (PyExn ''NoSuchFile'' p)
      | Some b \<Rightarrow> load_model E b)"

text \<open>\<^verbatim>\<open>session.run(output_names, input_dict)\<close>; the call is recorded.\<close>

definition run ::
  "('f, 'g) env \<Rightarrow> 'g world \<Rightarrow> session \<Rightarrow> string list option \<Rightarrow> 'g input_dict
     \<Rightarrow> (exn + 'g ndarray list) \<times> 'g world" where
  "run E w sess names d =
     (session_run E sess names d, w\<lparr>run_log := run_log w @ [(names, d)]\<rparr>)"

text \<open>\<^verbatim>\<open>os.unlink(path)\<close> and \<^verbatim>\<open>os.remove(path)\<close>.\<close>

definition unlink ::
  "('f, 'g) env \<Rightarrow> 'g world \<Rightarrow> path \<Rightarrow> exn option \<times> 'g world" where
  "unlink E w p =
     (if fs w p = None then (Some (PyExn ''FileNotFoundError'' p), w)
      else (case unlink_error E p of
              Some e \<Rightarrow> (Some e, w)
            | None \<Rightarrow> (None, w\<lparr>fs := (fs w)(p := None)\<rparr>)))"

subsection \<open>\<^verbatim>\<open>run_inference\<close> of Conjuagation_APP.py and GUI_Conjuagation.py\<close>

text \<open>
  The loop over the declared inputs.  \<open>Inl shape\<close> is the \<^verbatim>\<open>return False, ...\<close> in the
  \<^verbatim>\<open>else\<close> branch, which leaves the function from inside the loop.
\<close>

fun bind_inputs ::
  "('f \<Rightarrow> 'g) \<Rightarrow> 'f \<Rightarrow> 'f \<Rightarrow> node_arg list \<Rightarrow> 'g input_dict \<Rightarrow> dim list + 'g input_dict" where
  "bind_inputs c volume impeller_speed [] input_dict = Inr input_dict"
| "bind_inputs c volume impeller_speed (input_info # rest) input_dict =
     (let nm = na_name input_info;
          shape = na_shape input_info;
          values = [volume, impeller_speed]
      in if length shape = 1 then
           bind_inputs c volume impeller_speed rest
             (AList.update nm (np_array_1d c values) input_dict)
         else if length shape = 2 then
           bind_inputs c volume impeller_speed rest
             (AList.update nm (np_array_2d c [values]) input_dict)
         else Inl shape)"

definition unexpected_shape :: "('f, 'g) env \<Rightarrow> dim list \<Rightarrow> string" where
  "unexpected_shape E shape =
     ''Unexpected input shape: '' @ str_shape E shape @
     ''. Model should accept 1D or 2D input.''"

type_synonym 'g inference =
  "string list \<times> 'g input_dict \<times> string list \<times> 'g ndarray list"

text \<open>
  The body of the \<^verbatim>\<open>try\<close>: what it raises or returns, the state it leaves, and
  \<^verbatim>\<open>model_path\<close> if the local variable has been bound.
\<close>

definition run_inference_try ::
  "('f, 'g) env \<Rightarrow> 'g world \<Rightarrow> bytes \<Rightarrow> 'f \<Rightarrow> 'f
     \<Rightarrow> (exn + 'g inference result) \<times> 'g world \<times> path option" where
  "run_inference_try E w model_bytes volume impeller_speed =
     (case NamedTemporaryFile_write E w model_bytes of
        (Inl e, w1) \<Rightarrow> (Inl e, w1, None)
      | (Inr model_path, w1) \<Rightarrow>
          (case InferenceSession E w1 model_path of
             Inl e \<Rightarrow> (Inl e, w1, Some model_path)
           | Inr sess \<Rightarrow>
               (let inputs = get_inputs sess;
                    input_names = map na_name inputs
                in case bind_inputs (float32 E) volume impeller_speed inputs [] of
                     Inl shape \<Rightarrow>
                       (Inr (Failure (unexpected_shape E shape)), w1, Some model_path)
                   | Inr input_dict \<Rightarrow>
                       (let output_names = map na_name (get_outputs sess)
                        in case run E w1 sess (Some output_names) input_dict of
                             (Inl e, w2) \<Rightarrow> (Inl e, w2, Some model_path)
                           | (Inr outputs, w2) \<Rightarrow>
                               (case unlink E w2 model_path of
                                  (Some e, w3) \<Rightarrow> (Inl e, w3, Some model_path)
                                | (None, w3) \<Rightarrow>
                                    (Inr (Success (input_names, input_dict, output_names, outputs)),
                                     w3, Some model_path))))))"

text \<open>
  The handler: \<^verbatim>\<open>if 'model_path' in locals(): os.unlink(model_path)\<close> inside a
  \<^verbatim>\<open>try\<close> with a bare \<^verbatim>\<open>except: pass\<close>, then \<^verbatim>\<open>return False, str(e)\<close>.
\<close>

definition run_inference_except ::
  "('f, 'g) env \<Rightarrow> 'g world \<Rightarrow> path option \<Rightarrow> exn \<Rightarrow> 'g inference result \<times> 'g world" where
  "run_inference_except E w model_path e =
     (let w' = (case model_path of
                  None \<Rightarrow> w
                | Some p \<Rightarrow> snd (unlink E w p))
      in (Failure (str_exn e), w'))"

definition run_inference ::
  "('f, 'g) env \<Rightarrow> 'g world \<Rightarrow> bytes \<Rightarrow> 'f \<Rightarrow> 'f \<Rightarrow> 'g inference result \<times> 'g world" where
  "run_inference E w model_bytes volume impeller_speed =
     (case run_inference_try E w model_bytes volume impeller_speed of
        (Inr r, w', _) \<Rightarrow> (r, w')
      | (Inl e, w', model_path) \<Rightarrow> run_inference_except E w' model_path e)"

subsection \<open>Python lists and strings\<close>

text \<open>\<^verbatim>\<open>xs[i]\<close> for an index that is not negative.\<close>

definition py_index :: "'a list \<Rightarrow> nat \<Rightarrow> exn + 'a" where
  "py_index xs i =
     (if i < length xs then Inr (xs ! i)
      else Inl (PyExn ''IndexError'' ''list index out of range''))"

definition bind_exn :: "exn + 'a \<Rightarrow> ('a \<Rightarrow> exn + 'b) \<Rightarrow> exn + 'b" where
  "bind_exn m f = (case m of Inl e \<Rightarrow> Inl e | Inr x \<Rightarrow> f x)"

text \<open>\<^verbatim>\<open>str(n)\<close> for a natural number, and \<^verbatim>\<open>sep.join(xs)\<close>.\<close>

fun str_nat :: "nat \<Rightarrow> string" where
  "str_nat n =
     (if n < 10 then [''0123456789'' ! n]
      else str_nat (n div 10) @ [''0123456789'' ! (n mod 10)])"

declare str_nat.simps [simp del]

fun str_join :: "string \<Rightarrow> string list \<Rightarrow> string" where
  "str_join sep [] = []"
| "str_join sep [x] = x"
| "str_join sep (x # y # ys) = x @ sep @ str_join sep (y # ys)"

subsection \<open>\<^verbatim>\<open>main\<close> of Conjuagation_APP.py\<close>

text \<open>
  The block under \<^verbatim>\<open>if success:\<close>: the widgets written, and the exception if one is
  raised on the way.
\<close>

definition show_results ::
  "('f, 'g) env \<Rightarrow> 'g ndarray list \<Rightarrow> exn option \<times> ui_event list" where
  "show_results E outputs =
     (case py_index outputs 0 of
        Inl e \<Rightarrow> (Some e, [Subheader ''Results''])
      | Inr out0 \<Rightarrow>
          (let output_array = flatten out0
           in if length output_array \<ge> 5 then
                (case bind_exn (py_index output_array 0) (\<lambda>x0.
                      bind_exn (py_index output_array 1) (\<lambda>x1.
                      bind_exn (py_index output_array 2) (\<lambda>x2.
                      bind_exn (py_index output_array 3) (\<lambda>x3.
                      bind_exn (py_index output_array 4) (\<lambda>x4.
                        Inr (''Shear Rate: '' @ str_value E x0 @ [CHR 0x0A] @
                             ''Power: '' @ str_value E x1 @ [CHR 0x0A] @
                             ''Tip Speed: '' @ str_value E x2 @ [CHR 0x0A] @
                             ''Reynolds Number: '' @ str_value E x3 @ [CHR 0x0A] @
                             ''Power Number: '' @ str_value E x4)))))) of
                   Inl e \<Rightarrow> (Some e, [Subheader ''Results''])
                 | Inr result_text \<Rightarrow> (None, [Subheader ''Results'', Text result_text]))
              else
                (None,
                 [Subheader ''Results'',
                  Warning (''Output array doesn'' @ [CHR 0x27] @
                           ''t contain enough values for all the requested parameters.''),
                  Write (''Available values: '' @ str_array E output_array)])))"

text \<open>
  The part of \<^verbatim>\<open>main\<close> that depends on the upload and on the button.  The page
  configuration, the title, the sidebar, the input widgets and the footer write fixed
  text and are left out; \<open>uploaded_file\<close> is the content of the upload, \<open>button\<close> is what
  \<^verbatim>\<open>st.button("Run Inference")\<close> returns.
\<close>

definition main ::
  "('f, 'g) env \<Rightarrow> 'g world \<Rightarrow> bytes option \<Rightarrow> 'f \<Rightarrow> 'f \<Rightarrow> bool \<Rightarrow> exn option \<times> 'g world" where
  "main E w uploaded_file volume impeller_speed button =
     (case uploaded_file of
        None \<Rightarrow> (None, w\<lparr>ui := ui w @ [Info ''Please upload an ONNX model to begin.'']\<rparr>)
      | Some model_bytes \<Rightarrow>
          if button then
            (case run_inference E w model_bytes volume impeller_speed of
               (Success (input_names, input_dict, output_names, outputs), w1) \<Rightarrow>
                 (case show_results E outputs of
                    (x, evs) \<Rightarrow> (x, w1\<lparr>ui := ui w1 @ evs\<rparr>))
             | (Failure msg, w1) \<Rightarrow>
                 (None, w1\<lparr>ui := ui w1 @ [Error (''Error running inference: '' @ msg)]\<rparr>))
          else (None, w))"

subsection \<open>Conjuagation_APP_V2.py\<close>

definition MODEL_OPTIONS :: "(string \<times> string) list" where
  "MODEL_OPTIONS =
     [(''2L to 5L'', ''https://github.com/code2mech/App/blob/main/2L_5L.onnx''),
      (''10L to 20L'', ''https://github.com/code2mech/App/blob/main/10L_20L.onnx''),
      (''800L to 2000L'',
       ''https://raw.githubusercontent.com/yourusername/yourrepo/main/model_heat.onnx'')]"

definition OUTPUT_LABELS :: "string list" where
  "OUTPUT_LABELS =
     [''Shear Rate'', ''Power'', ''Tip Speed'', ''Reynolds Number'', ''Power Number'']"

definition download_model_from_github ::
  "('f, 'g) env \<Rightarrow> 'g world \<Rightarrow> string \<Rightarrow> (exn + path) \<times> 'g world" where
  "download_model_from_github E w url =
     (case http_get E url of
        Inl e \<Rightarrow> (Inl e, w)
      | Inr response \<Rightarrow>
          if status_code response = 200 then
            NamedTemporaryFile_write E w (content response)
          else (Inl (PyExn ''Exception'' ''Failed to download model from GitHub.''), w))"

type_synonym 'g inference_v2 =
  "string list \<times> 'g input_dict \<times> node_arg list \<times> 'g ndarray list"

definition run_inference_v2_try ::
  "('f, 'g) env \<Rightarrow> 'g world \<Rightarrow> path \<Rightarrow> 'f \<Rightarrow> 'f \<Rightarrow> (exn + 'g inference_v2) \<times> 'g world" where
  "run_inference_v2_try E w model_path volume impeller_speed =
     (case InferenceSession E w model_path of
        Inl e \<Rightarrow> (Inl e, w)
      | Inr sess \<Rightarrow>
          (let input_names = map na_name (get_inputs sess);
               input_data = np_array_2d (float32 E) [[volume, impeller_speed]]
           in case py_index input_names 0 of
                Inl e \<Rightarrow> (Inl e, w)
              | Inr name0 \<Rightarrow>
                  (let input_dict = [(name0, input_data)]
                   in case run E w sess None input_dict of
                        (Inl e, w1) \<Rightarrow> (Inl e, w1)
                      | (Inr outputs, w1) \<Rightarrow>
                          (Inr (input_names, input_dict, get_outputs sess, outputs), w1))))"

definition run_inference_v2 ::
  "('f, 'g) env \<Rightarrow> 'g world \<Rightarrow> path \<Rightarrow> 'f \<Rightarrow> 'f \<Rightarrow> 'g inference_v2 result \<times> 'g world" where
  "run_inference_v2 E w model_path volume impeller_speed =
     (case run_inference_v2_try E w model_path volume impeller_speed of
        (Inr r, w') \<Rightarrow> (Success r, w')
      | (Inl e, w') \<Rightarrow> (Failure (str_exn e), w'))"

text \<open>
  \<^verbatim>\<open>for i in range(5): st.write(f"**{OUTPUT_LABELS[i]}**: {output_array[i]}")\<close>,
  over the indices that are left.
\<close>

fun write_labelled ::
  "('f, 'g) env \<Rightarrow> 'g list \<Rightarrow> nat list \<Rightarrow> exn option \<times> ui_event list" where
  "write_labelled E output_array [] = (None, [])"
| "write_labelled E output_array (i # rest) =
     (case py_index OUTPUT_LABELS i of
        Inl e \<Rightarrow> (Some e, [])
      | Inr label \<Rightarrow>
          (case py_index output_array i of
             Inl e \<Rightarrow> (Some e, [])
           | Inr x \<Rightarrow>
               (case write_labelled E output_array rest of
                  (r, evs) \<Rightarrow>
                    (r, Write (''**'' @ label @ ''**: '' @ str_value E x) # evs))))"

text \<open>
  The block under \<^verbatim>\<open>if success:\<close> in \<^verbatim>\<open>main\<close>.  The subheader is the four bytes of
  the chart emoji followed by \<^verbatim>\<open> Results\<close>.
\<close>

definition show_results_v2 ::
  "('f, 'g) env \<Rightarrow> 'g ndarray list \<Rightarrow> exn option \<times> ui_event list" where
  "show_results_v2 E outputs =
     (case py_index outputs 0 of
        Inl e \<Rightarrow> (Some e, [])
      | Inr out0 \<Rightarrow>
          (let output_array = flatten out0;
               head = [Subheader ([CHR 0xF0, CHR 0x9F, CHR 0x93, CHR 0x8A] @ '' Results'')];
               csv = DownloadButton ''Download results as CSV''
                       (str_join '','' (map (py_str E) output_array))
                       ''inference_results.csv'' ''text/csv''
           in if length output_array \<ge> 5 then
                (case write_labelled E output_array [0..<5] of
                   (Some e, evs) \<Rightarrow> (Some e, head @ evs)
                 | (None, evs) \<Rightarrow> (None, head @ evs @ [csv]))
              else
                (None,
                 head @
                 [Warning ''Not enough outputs to label. Showing raw values:''] @
                 map (\<lambda>(i, val). Write (''Output '' @ str_nat (i + 1) @ '': '' @ str_value E val))
                     (enumerate 0 output_array) @
                 [csv])))"

text \<open>What reading \<^verbatim>\<open>model_path\<close> raises while the variable is unbound (CPython 3.11 wording).\<close>

definition unbound_model_path :: exn where
  "unbound_model_path =
     PyExn ''UnboundLocalError''
       (''cannot access local variable '' @ [CHR 0x27] @ ''model_path'' @ [CHR 0x27] @
        '' where it is not associated with a value'')"

text \<open>
  The body of the \<^verbatim>\<open>try\<close> in \<^verbatim>\<open>main\<close>: the exception it ends with, if any, the state,
  and \<^verbatim>\<open>model_path\<close> if it has been bound.
\<close>

definition main_v2_try ::
  "('f, 'g) env \<Rightarrow> 'g world \<Rightarrow> string \<Rightarrow> 'f \<Rightarrow> 'f \<Rightarrow> exn option \<times> 'g world \<times> path option" where
  "main_v2_try E w selected_model_url volume impeller_speed =
     (case download_model_from_github E w selected_model_url of
        (Inl e, w1) \<Rightarrow> (Some e, w1, None)
      | (Inr model_path, w1) \<Rightarrow>
          (case run_inference_v2 E w1 model_path volume impeller_speed of
             (Success (_, _, output_names, outputs), w2) \<Rightarrow>
               (case show_results_v2 E outputs of
                  (x, evs) \<Rightarrow> (x, w2\<lparr>ui := ui w2 @ evs\<rparr>, Some model_path))
           | (Failure msg, w2) \<Rightarrow>
               (None, w2\<lparr>ui := ui w2 @ [Error (''Inference failed: '' @ msg)]\<rparr>,
                Some model_path)))"

text \<open>
  \<^verbatim>\<open>finally: if os.path.exists(model_path): os.remove(model_path)\<close>.  An exception
  raised here replaces the one that was under way; otherwise that one goes on.
\<close>

definition main_v2_finally ::
  "('f, 'g) env \<Rightarrow> 'g world \<Rightarrow> path option \<Rightarrow> exn option \<Rightarrow> exn option \<times> 'g world" where
  "main_v2_finally E w model_path pending =
     (case model_path of
        None \<Rightarrow> (Some unbound_model_path, w)
      | Some p \<Rightarrow>
          if fs w p \<noteq> None then
            (case unlink E w p of
               (Some e, w') \<Rightarrow> (Some e, w')
             | (None, w') \<Rightarrow> (pending, w'))
          else (pending, w))"

text \<open>
  \<^verbatim>\<open>main\<close> from the lookup of the selected model on; the page configuration, the title
  and the input widgets are left out.  The result is the exception that leaves \<^verbatim>\<open>main\<close>,
  if one does.
\<close>

definition main_v2 ::
  "('f, 'g) env \<Rightarrow> 'g world \<Rightarrow> string \<Rightarrow> 'f \<Rightarrow> 'f \<Rightarrow> bool \<Rightarrow> exn option \<times> 'g world" where
  "main_v2 E w selected_model_name volume impeller_speed button =
     (case map_of MODEL_OPTIONS selected_model_name of
        None \<Rightarrow> (Some (PyExn ''KeyError'' selected_model_name), w)
      | Some selected_model_url \<Rightarrow>
          if button then
            (case main_v2_try E w selected_model_url volume impeller_speed of
               (x, w1, model_path) \<Rightarrow> main_v2_finally E w1 model_path x)
          else (None, w))"

subsection \<open>Sample models and a sample environment\<close>

text \<open>
  Python's rendering of a shape, for shapes whose symbolic dimensions are plain words.
\<close>

definition str_int :: "int \<Rightarrow> string" where
  "str_int i = (if i < 0 then ''-'' @ str_nat (nat (- i)) else str_nat (nat i))"

definition repr_dim :: "dim \<Rightarrow> string" where
  "repr_dim d =
     (case d of
        Dim n \<Rightarrow> str_int n
      | Sym s \<Rightarrow> [CHR 0x27] @ s @ [CHR 0x27]
      | NoDim \<Rightarrow> ''None'')"

definition repr_shape :: "dim list \<Rightarrow> string" where
  "repr_shape sh = ''['' @ str_join '', '' (map repr_dim sh) @ '']''"

text \<open>
  An environment in which every outside call succeeds, except that the third address of
  \<open>MODEL_OPTIONS\<close> is not found.  The values are reals that float32 holds exactly.
\<close>

definition sample_outputs :: "real ndarray list" where
  "sample_outputs = [\<lparr>nd_shape = [1, 5], nd_data = [10, 20, 30, 40, 50]\<rparr>]"

definition sample_env :: "session \<Rightarrow> (real, real) env" where
  "sample_env sess =
     \<lparr>named_temp = (\<lambda>files. Inr ''/tmp/tmpk3v9x2.onnx''),
      write_error = (\<lambda>p b. None),
      load_model = (\<lambda>b. Inr sess),
      session_run = (\<lambda>s names d. Inr sample_outputs),
      unlink_error = (\<lambda>p. None),
      http_get = (\<lambda>url.
        if url = ''https://raw.githubusercontent.com/yourusername/yourrepo/main/model_heat.onnx''
        then Inr \<lparr>status_code = 404, content = ''404: Not Found''\<rparr>
        else Inr \<lparr>status_code = 200, content = ''onnx''\<rparr>),
      float32 = (\<lambda>x. x),
      str_shape = repr_shape,
      str_value = (\<lambda>x. str_int \<lfloor>x\<rfloor> @ ''.0''),
      py_str = (\<lambda>x. str_int \<lfloor>x\<rfloor> @ ''.0''),
      str_array = (\<lambda>xs. ''['' @ str_join '' '' (map (\<lambda>x. str_int \<lfloor>x\<rfloor> @ ''.'') xs) @ '']'')\<rparr>"

definition sample_world :: "real world" where
  "sample_world = \<lparr>fs = Map.empty, run_log = [], ui = []\<rparr>"

definition rank1_session :: session where
  "rank1_session =
     \<lparr>get_inputs = [\<lparr>na_name = ''input'', na_shape = [Dim 2]\<rparr>],
      get_outputs = [\<lparr>na_name = ''output'', na_shape = [Dim 5]\<rparr>]\<rparr>"

definition rank2_session :: session where
  "rank2_session =
     \<lparr>get_inputs = [\<lparr>na_name = ''input_name'', na_shape = [Dim 1, Dim 2]\<rparr>],
      get_outputs = [\<lparr>na_name = ''output'', na_shape = [Dim 1, Dim 5]\<rparr>]\<rparr>"

definition rank3_session :: session where
  "rank3_session =
     \<lparr>get_inputs = [\<lparr>na_name = ''input'', na_shape = [Dim 2, Dim 2, Dim 2]\<rparr>],
      get_outputs = [\<lparr>na_name = ''output'', na_shape = [Dim 5]\<rparr>]\<rparr>"

definition two_input_session :: session where
  "two_input_session =
     \<lparr>get_inputs = [\<lparr>na_name = ''input_a'', na_shape = [Dim 2]\<rparr>,
                    \<lparr>na_name = ''input_b'', na_shape = [Dim 1, Dim 2]\<rparr>],
      get_outputs = [\<lparr>na_name = ''output'', na_shape = [Dim 5]\<rparr>]\<rparr>"

text \<open>The state once the sample model has been downloaded to a temporary file.\<close>

definition downloaded_world :: "real world" where
  "downloaded_world =
     \<lparr>fs = [''/tmp/tmpk3v9x2.onnx'' \<mapsto> ''onnx''], run_log = [], ui = []\<rparr>"

text \<open>
  An environment in which the runtime rejects the input and the temporary file cannot
  be removed.
\<close>

definition failing_env :: "(real, real) env" where
  "failing_env =
     (sample_env rank2_session)
       \<lparr>session_run := (\<lambda>s names d.
          Inl (PyExn ''InvalidArgument'' ''Invalid rank for input: input_name'')),
        unlink_error := (\<lambda>p.
          Some (PyExn ''PermissionError'' ''The process cannot access the file''))\<rparr>"

text \<open>The sample environment with another name for the temporary file.\<close>

definition renamed_env :: "(real, real) env" where
  "renamed_env =
     (sample_env rank2_session)\<lparr>named_temp := (\<lambda>files. Inr ''/tmp/tmpq7w1z8.onnx'')\<rparr>"

section \<open>Properties\<close>

lemmas v1_defs = run_inference_def run_inference_try_def NamedTemporaryFile_write_def
  InferenceSession_def run_def unlink_def run_inference_except_def Let_def

lemmas v2_defs = run_inference_v2_def run_inference_v2_try_def InferenceSession_def run_def
  py_index_def Let_def

lemmas sample_defs = sample_env_def sample_world_def downloaded_world_def sample_outputs_def

subsection \<open>What a successful call has done\<close>

lemma run_inference_SuccessD:
  assumes "fst (run_inference E w mb v s) = Success (names, d, onames, outs)"
  shows "\<exists>p sess. named_temp E (fs w) = Inr p \<and> fs w p = None \<and> write_error E p mb = None \<and>
           load_model E mb = Inr sess \<and> names = map na_name (get_inputs sess) \<and>
           bind_inputs (float32 E) v s (get_inputs sess) [] = Inr d \<and>
           onames = map na_name (get_outputs sess) \<and>
           session_run E sess (Some onames) d = Inr outs \<and>
           unlink_error E p = None \<and>
           run_log (snd (run_inference E w mb v s)) = run_log w @ [(Some onames, d)] \<and>
           fs (snd (run_inference E w mb v s)) = fs w"
  using assms
  by (auto simp: v1_defs fun_upd_idem split: sum.splits option.splits prod.splits if_splits)


subsection \<open>A model with one declared input\<close>

lemma run_inference_one_input:
  assumes nt: "named_temp E (fs w) = Inr p" and fresh: "fs w p = None"
    and wr: "write_error E p model_bytes = None"
    and ld: "load_model E model_bytes = Inr sess"
    and ins: "get_inputs sess = [i]"
  shows "length (na_shape i) = 1 \<Longrightarrow>
         run_log (snd (run_inference E w model_bytes volume impeller_speed)) =
           run_log w @ [(Some (map na_name (get_outputs sess)),
              [(na_name i, \<lparr>nd_shape = [2],
                             nd_data = [float32 E volume, float32 E impeller_speed]\<rparr>)])]"
    and "length (na_shape i) = 2 \<Longrightarrow>
         run_log (snd (run_inference E w model_bytes volume impeller_speed)) =
           run_log w @ [(Some (map na_name (get_outputs sess)),
              [(na_name i, \<lparr>nd_shape = [1, 2],
                             nd_data = [float32 E volume, float32 E impeller_speed]\<rparr>)])]"
    and "3 \<le> length (na_shape i) \<Longrightarrow>
         run_inference E w model_bytes volume impeller_speed =
           (Failure (''Unexpected input shape: '' @ str_shape E (na_shape i) @
                     ''. Model should accept 1D or 2D input.''),
            w\<lparr>fs := (fs w)(p \<mapsto> model_bytes)\<rparr>)"
  using assms
  by (auto simp: v1_defs np_array_1d_def np_array_2d_def unexpected_shape_def
           split: sum.splits option.splits prod.splits)

lemma run_inference_v2_one_input:
  assumes fl: "fs w model_path = Some model_bytes"
    and ld: "load_model E model_bytes = Inr sess"
    and ins: "get_inputs sess = [i]"
  shows "run_log (snd (run_inference_v2 E w model_path volume impeller_speed)) =
           run_log w @ [(None,
              [(na_name i, \<lparr>nd_shape = [1, 2],
                             nd_data = [float32 E volume, float32 E impeller_speed]\<rparr>)])]"
  using assms
  by (auto simp: v2_defs np_array_2d_def split: sum.splits option.splits prod.splits)

subsection \<open>The loop over the declared inputs\<close>

lemma ran_update_subset: "snd ` set (AList.update k v al) \<subseteq> insert v (snd ` set al)"
  by (induction al) auto

lemma bind_inputs_dom:
  "bind_inputs c v s ins d0 = Inr d \<Longrightarrow> fst ` set d = fst ` set d0 \<union> na_name ` set ins"
  by (induction ins arbitrary: d0) (auto simp: Let_def dom_update split: if_splits)

lemma bind_inputs_ran:
  "bind_inputs c v s ins d0 = Inr d \<Longrightarrow>
   snd ` set d \<subseteq> snd ` set d0 \<union> {np_array_1d c [v, s], np_array_2d c [[v, s]]}"
proof (induction ins arbitrary: d0)
  case Nil
  then show ?case by auto
next
  case (Cons i ins)
  show ?case
  proof (cases "length (na_shape i) = 1")
    case True
    with Cons.prems
    have "bind_inputs c v s ins (AList.update (na_name i) (np_array_1d c [v, s]) d0) = Inr d"
      by (simp add: Let_def)
    from Cons.IH[OF this] ran_update_subset[of "na_name i" "np_array_1d c [v, s]" d0]
    show ?thesis by blast
  next
    case False
    with Cons.prems have two: "length (na_shape i) = 2"
      by (simp add: Let_def split: if_splits)
    with False Cons.prems
    have "bind_inputs c v s ins (AList.update (na_name i) (np_array_2d c [[v, s]]) d0) = Inr d"
      by (simp add: Let_def)
    from Cons.IH[OF this] ran_update_subset[of "na_name i" "np_array_2d c [[v, s]]" d0]
    show ?thesis by blast
  qed
qed

subsection \<open>The temporary file\<close>

text \<open>
  Whenever the loop meets an input whose rank is neither 1 nor 2, the call returns with
  the temporary file in place.
\<close>

lemma run_inference_rejected_shape_leaks:
  assumes nt: "named_temp E (fs w) = Inr p" and fresh: "fs w p = None"
    and wr: "write_error E p model_bytes = None"
    and ld: "load_model E model_bytes = Inr sess"
    and bad: "bind_inputs (float32 E) volume impeller_speed (get_inputs sess) [] = Inl shape"
  shows "run_inference E w model_bytes volume impeller_speed =
           (Failure (unexpected_shape E shape), w\<lparr>fs := (fs w)(p \<mapsto> model_bytes)\<rparr>)"
  using assms by (simp add: v1_defs)

text \<open>
  C1.  The claim is that the temporary model file is gone when \<^verbatim>\<open>run_inference\<close> returns,
  on every exit path.  The code breaks it on the unsupported-shape path: for a model
  whose input has shape \<open>[2, 2, 2]\<close> the function returns its failure from inside the
  loop, neither \<^verbatim>\<open>os.unlink\<close> is reached, and the file is still there with the model in it.
\<close>

theorem run_inference_rejected_shape_keeps_file:
  "fst (run_inference (sample_env rank3_session) sample_world ''onnx'' 1 1) =
     Failure ''Unexpected input shape: [2, 2, 2]. Model should accept 1D or 2D input.'' \<and>
   fs (snd (run_inference (sample_env rank3_session) sample_world ''onnx'' 1 1))
     ''/tmp/tmpk3v9x2.onnx'' = Some ''onnx''"
  by (simp add: run_inference_def run_inference_try_def NamedTemporaryFile_write_def
      InferenceSession_def sample_env_def sample_world_def rank3_session_def
      unexpected_shape_def repr_shape_def repr_dim_def str_int_def str_nat.simps)

subsection \<open>Which inputs are bound\<close>

text \<open>The array the loop of the upload variants builds for one declared input.\<close>

lemma update_fresh: "k \<notin> fst ` set al \<Longrightarrow> AList.update k v al = al @ [(k, v)]"
  by (induction al) auto

lemma bind_inputs_total:
  "list_all (\<lambda>i. length (na_shape i) = 1 \<or> length (na_shape i) = 2) ins \<Longrightarrow>
   \<exists>d. bind_inputs c v s ins d0 = Inr d"
  by (induction ins arbitrary: d0) (auto simp: Let_def)

lemma bind_inputs_distinct:
  assumes "distinct (map na_name ins)"
    and "na_name ` set ins \<inter> fst ` set d0 = {}"
    and "bind_inputs c v s ins d0 = Inr d"
  shows "d = d0 @ map (\<lambda>i. (na_name i,
                 if length (na_shape i) = 1 then np_array_1d c [v, s]
                 else np_array_2d c [[v, s]])) ins"
  using assms
proof (induction ins arbitrary: d0)
  case Nil
  then show ?case by simp
next
  case (Cons i ins)
  let ?a = "if length (na_shape i) = 1 then np_array_1d c [v, s] else np_array_2d c [[v, s]]"
  from Cons.prems(2) have fresh: "na_name i \<notin> fst ` set d0"
    by auto
  from Cons.prems(3) have step: "bind_inputs c v s ins (AList.update (na_name i) ?a d0) = Inr d"
    by (auto simp: Let_def split: if_splits)
  have upd: "AList.update (na_name i) ?a d0 = d0 @ [(na_name i, ?a)]"
    using fresh by (rule update_fresh)
  from Cons.prems(1) have d: "distinct (map na_name ins)" and ni: "na_name i \<notin> na_name ` set ins"
    by auto
  from Cons.prems(2) ni have disj: "na_name ` set ins \<inter> fst ` set (d0 @ [(na_name i, ?a)]) = {}"
    by auto
  from Cons.IH[OF d disj step[unfolded upd]] show ?case
    by simp
qed

lemma run_inference_feeds:
  assumes nt: "named_temp E (fs w) = Inr p" and fresh: "fs w p = None"
    and wr: "write_error E p model_bytes = None"
    and ld: "load_model E model_bytes = Inr sess"
    and b: "bind_inputs (float32 E) volume impeller_speed (get_inputs sess) [] = Inr d"
  shows "run_log (snd (run_inference E w model_bytes volume impeller_speed)) =
           run_log w @ [(Some (map na_name (get_outputs sess)), d)]"
  using assms
  by (auto simp: v1_defs split: sum.splits option.splits prod.splits)

lemma run_inference_v2_feeds:
  assumes fl: "fs w model_path = Some model_bytes"
    and ld: "load_model E model_bytes = Inr sess"
  shows "run_log (snd (run_inference_v2 E w model_path volume impeller_speed)) =
           run_log w @
           (case get_inputs sess of
              [] \<Rightarrow> []
            | i0 # rest \<Rightarrow>
                [(None, [(na_name i0, np_array_2d (float32 E) [[volume, impeller_speed]])])])"
  using assms
  by (auto simp: v2_defs split: sum.splits option.splits prod.splits list.splits)

text \<open>
  C2, as stated, fails on the upload variants: for a model that declares the inputs
  \<open>input_a\<close> of shape \<open>[2]\<close> and \<open>input_b\<close> of shape \<open>[1, 2]\<close>, \<^verbatim>\<open>run_inference\<close> of
  Conjuagation_APP.py calls the runtime with a binding for both of them.
\<close>

theorem run_inference_binds_every_input:
  "run_log (snd (run_inference (sample_env two_input_session) sample_world ''onnx'' 2.5 100)) =
     [(Some [''output''],
       [(''input_a'', \<lparr>nd_shape = [2], nd_data = [2.5, 100]\<rparr>),
        (''input_b'', \<lparr>nd_shape = [1, 2], nd_data = [2.5, 100]\<rparr>)])]"
  by (simp add: v1_defs sample_defs two_input_session_def np_array_1d_def np_array_2d_def)

text \<open>
  C2, amended.  The download variant calls the runtime with a binding for the first
  declared input and for no other, whatever else the model declares: the two values as
  the one row of a two-dimensional array (and it makes no call when the model declares
  no input).  The upload variants, when every declared input has rank 1 or 2, call the
  runtime with a binding for every declared input and for nothing else, each bound to
  the two values as a flat array or as one row; where the declared names differ from
  one another, the binding lists the declared inputs in their order, each with the
  array of its own rank.
\<close>

theorem inputs_fed_by_variant:
  assumes nt: "named_temp E (fs w) = Inr p" and fresh: "fs w p = None"
    and wr: "write_error E p model_bytes = None"
    and ld: "load_model E model_bytes = Inr sess"
    and fl: "fs w2 model_path = Some model_bytes"
  shows "(list_all (\<lambda>i. length (na_shape i) = 1 \<or> length (na_shape i) = 2) (get_inputs sess) \<longrightarrow>
          (\<exists>d. run_log (snd (run_inference E w model_bytes volume impeller_speed)) =
                  run_log w @ [(Some (map na_name (get_outputs sess)), d)] \<and>
                fst ` set d = na_name ` set (get_inputs sess) \<and>
                snd ` set d \<subseteq>
                  {np_array_1d (float32 E) [volume, impeller_speed],
                   np_array_2d (float32 E) [[volume, impeller_speed]]} \<and>
                (distinct (map na_name (get_inputs sess)) \<longrightarrow>
                 d = map (\<lambda>i. (na_name i,
                            if length (na_shape i) = 1
                            then np_array_1d (float32 E) [volume, impeller_speed]
                            else np_array_2d (float32 E) [[volume, impeller_speed]]))
                       (get_inputs sess)))) \<and>
         run_log (snd (run_inference_v2 E w2 model_path volume impeller_speed)) =
           run_log w2 @
           (case get_inputs sess of
              [] \<Rightarrow> []
            | i0 # rest \<Rightarrow>
                [(None, [(na_name i0, np_array_2d (float32 E) [[volume, impeller_speed]])])])"
proof (intro conjI impI)
  assume "list_all (\<lambda>i. length (na_shape i) = 1 \<or> length (na_shape i) = 2) (get_inputs sess)"
  from bind_inputs_total[OF this, where c = "float32 E" and v = volume
         and s = impeller_speed and ?d0.0 = "[]"]
  obtain d where
    b: "bind_inputs (float32 E) volume impeller_speed (get_inputs sess) [] = Inr d"
    by blast
  have "run_log (snd (run_inference E w model_bytes volume impeller_speed)) =
          run_log w @ [(Some (map na_name (get_outputs sess)), d)]"
    by (rule run_inference_feeds[OF nt fresh wr ld b])
  moreover from bind_inputs_dom[OF b] have "fst ` set d = na_name ` set (get_inputs sess)"
    by simp
  moreover from bind_inputs_ran[OF b]
  have "snd ` set d \<subseteq>
          {np_array_1d (float32 E) [volume, impeller_speed],
           np_array_2d (float32 E) [[volume, impeller_speed]]}"
    by simp
  moreover have "distinct (map na_name (get_inputs sess)) \<longrightarrow>
                 d = map (\<lambda>i. (na_name i,
                            if length (na_shape i) = 1
                            then np_array_1d (float32 E) [volume, impeller_speed]
                            else np_array_2d (float32 E) [[volume, impeller_speed]]))
                       (get_inputs sess)"
  proof
    assume dist: "distinct (map na_name (get_inputs sess))"
    from bind_inputs_distinct[OF dist _ b] show
      "d = map (\<lambda>i. (na_name i,
                  if length (na_shape i) = 1
                  then np_array_1d (float32 E) [volume, impeller_speed]
                  else np_array_2d (float32 E) [[volume, impeller_speed]]))
             (get_inputs sess)"
      by simp
  qed
  ultimately show
    "\<exists>d. run_log (snd (run_inference E w model_bytes volume impeller_speed)) =
            run_log w @ [(Some (map na_name (get_outputs sess)), d)] \<and>
          fst ` set d = na_name ` set (get_inputs sess) \<and>
          snd ` set d \<subseteq>
            {np_array_1d (float32 E) [volume, impeller_speed],
             np_array_2d (float32 E) [[volume, impeller_speed]]} \<and>
          (distinct (map na_name (get_inputs sess)) \<longrightarrow>
           d = map (\<lambda>i. (na_name i,
                      if length (na_shape i) = 1
                      then np_array_1d (float32 E) [volume, impeller_speed]
                      else np_array_2d (float32 E) [[volume, impeller_speed]]))
                 (get_inputs sess))"
    by blast
next
  show "run_log (snd (run_inference_v2 E w2 model_path volume impeller_speed)) =
           run_log w2 @
           (case get_inputs sess of
              [] \<Rightarrow> []
            | i0 # rest \<Rightarrow>
                [(None, [(na_name i0, np_array_2d (float32 E) [[volume, impeller_speed]])])])"
    by (rule run_inference_v2_feeds[OF fl ld])
qed

theorem inputs_fed_by_variant_witness:
  "named_temp (sample_env two_input_session) (fs sample_world) = Inr ''/tmp/tmpk3v9x2.onnx'' \<and>
   fs sample_world ''/tmp/tmpk3v9x2.onnx'' = None \<and>
   write_error (sample_env two_input_session) ''/tmp/tmpk3v9x2.onnx'' ''onnx'' = None \<and>
   load_model (sample_env two_input_session) ''onnx'' = Inr two_input_session \<and>
   fs downloaded_world ''/tmp/tmpk3v9x2.onnx'' = Some ''onnx'' \<and>
   list_all (\<lambda>i. length (na_shape i) = 1 \<or> length (na_shape i) = 2)
     (get_inputs two_input_session) \<and>
   distinct (map na_name (get_inputs two_input_session)) \<and>
   run_log (snd (run_inference (sample_env two_input_session) sample_world ''onnx'' 2.5 100)) =
     [(Some [''output''],
       [(''input_a'', \<lparr>nd_shape = [2], nd_data = [2.5, 100]\<rparr>),
        (''input_b'', \<lparr>nd_shape = [1, 2], nd_data = [2.5, 100]\<rparr>)])] \<and>
   run_log (snd (run_inference_v2 (sample_env two_input_session) downloaded_world
                   ''/tmp/tmpk3v9x2.onnx'' 2.5 100)) =
     [(None, [(''input_a'', \<lparr>nd_shape = [1, 2], nd_data = [2.5, 100]\<rparr>)])]"
proof -
  have nt: "named_temp (sample_env two_input_session) (fs sample_world) =
              Inr ''/tmp/tmpk3v9x2.onnx''"
    by (simp add: sample_defs)
  have fresh: "fs sample_world ''/tmp/tmpk3v9x2.onnx'' = None"
    by (simp add: sample_defs)
  have wr: "write_error (sample_env two_input_session) ''/tmp/tmpk3v9x2.onnx'' ''onnx'' = None"
    by (simp add: sample_defs)
  have ld: "load_model (sample_env two_input_session) ''onnx'' = Inr two_input_session"
    by (simp add: sample_env_def)
  have fl: "fs downloaded_world ''/tmp/tmpk3v9x2.onnx'' = Some ''onnx''"
    by (simp add: sample_defs)
  have ranks: "list_all (\<lambda>i. length (na_shape i) = 1 \<or> length (na_shape i) = 2)
                 (get_inputs two_input_session)"
    by (simp add: two_input_session_def)
  have dist: "distinct (map na_name (get_inputs two_input_session))"
    by (simp add: two_input_session_def)
  from inputs_fed_by_variant[OF nt fresh wr ld fl, where volume = "2.5"
         and impeller_speed = 100] ranks dist
  have "run_log (snd (run_inference (sample_env two_input_session) sample_world
                        ''onnx'' 2.5 100)) =
     [(Some [''output''],
       [(''input_a'', \<lparr>nd_shape = [2], nd_data = [2.5, 100]\<rparr>),
        (''input_b'', \<lparr>nd_shape = [1, 2], nd_data = [2.5, 100]\<rparr>)])] \<and>
   run_log (snd (run_inference_v2 (sample_env two_input_session) downloaded_world
                   ''/tmp/tmpk3v9x2.onnx'' 2.5 100)) =
     [(None, [(''input_a'', \<lparr>nd_shape = [1, 2], nd_data = [2.5, 100]\<rparr>)])]"
    by (auto simp: sample_defs two_input_session_def np_array_1d_def np_array_2d_def)
  with nt fresh wr ld fl ranks dist show ?thesis
    by blast
qed

subsection \<open>The array built for one declared input\<close>

text \<open>
  C3, as stated, fails on the download variant: its \<^verbatim>\<open>run_inference\<close> does not look at
  the declared shape, and for an input of shape \<open>[2]\<close> it passes one row of two values,
  not a flat array.
\<close>

theorem run_inference_v2_rank1_gets_2d:
  "run_log (snd (run_inference_v2 (sample_env rank1_session) downloaded_world
                   ''/tmp/tmpk3v9x2.onnx'' 2.5 100)) =
     [(None, [(''input'', \<lparr>nd_shape = [1, 2], nd_data = [2.5, 100]\<rparr>)])]"
  by (simp add: v2_defs sample_defs rank1_session_def np_array_2d_def)

text \<open>
  C3, amended.  For a model whose sole declared input has rank 1, the upload variants
  pass the runtime the flat array of the volume and the impeller speed, in that order,
  each cast to float32; the download variant passes the same two values as the one row
  of a two-dimensional array.
\<close>

theorem rank1_input_array_by_variant:
  assumes nt: "named_temp E (fs w) = Inr p" and fresh: "fs w p = None"
    and wr: "write_error E p model_bytes = None"
    and ld: "load_model E model_bytes = Inr sess"
    and ins: "get_inputs sess = [i]"
    and rk: "length (na_shape i) = 1"
    and fl: "fs w2 model_path = Some model_bytes"
  shows "run_log (snd (run_inference E w model_bytes volume impeller_speed)) =
           run_log w @ [(Some (map na_name (get_outputs sess)),
              [(na_name i, \<lparr>nd_shape = [2],
                             nd_data = [float32 E volume, float32 E impeller_speed]\<rparr>)])] \<and>
         run_log (snd (run_inference_v2 E w2 model_path volume impeller_speed)) =
           run_log w2 @ [(None,
              [(na_name i, \<lparr>nd_shape = [1, 2],
                             nd_data = [float32 E volume, float32 E impeller_speed]\<rparr>)])]"
  using run_inference_one_input(1)[OF nt fresh wr ld ins rk]
        run_inference_v2_one_input[OF fl ld ins]
  by simp

theorem rank1_input_array_by_variant_witness:
  "named_temp (sample_env rank1_session) (fs sample_world) = Inr ''/tmp/tmpk3v9x2.onnx'' \<and>
   fs sample_world ''/tmp/tmpk3v9x2.onnx'' = None \<and>
   write_error (sample_env rank1_session) ''/tmp/tmpk3v9x2.onnx'' ''onnx'' = None \<and>
   load_model (sample_env rank1_session) ''onnx'' = Inr rank1_session \<and>
   get_inputs rank1_session = [\<lparr>na_name = ''input'', na_shape = [Dim 2]\<rparr>] \<and>
   length (na_shape \<lparr>na_name = ''input'', na_shape = [Dim 2]\<rparr>) = 1 \<and>
   fs downloaded_world ''/tmp/tmpk3v9x2.onnx'' = Some ''onnx'' \<and>
   run_log (snd (run_inference (sample_env rank1_session) sample_world ''onnx'' 2.5 100)) =
     [(Some [''output''], [(''input'', \<lparr>nd_shape = [2], nd_data = [2.5, 100]\<rparr>)])] \<and>
   run_log (snd (run_inference_v2 (sample_env rank1_session) downloaded_world
                   ''/tmp/tmpk3v9x2.onnx'' 2.5 100)) =
     [(None, [(''input'', \<lparr>nd_shape = [1, 2], nd_data = [2.5, 100]\<rparr>)])]"
proof -
  have nt: "named_temp (sample_env rank1_session) (fs sample_world) = Inr ''/tmp/tmpk3v9x2.onnx''"
    by (simp add: sample_defs rank1_session_def)
  have fresh: "fs sample_world ''/tmp/tmpk3v9x2.onnx'' = None"
    by (simp add: sample_defs rank1_session_def)
  have wr: "write_error (sample_env rank1_session) ''/tmp/tmpk3v9x2.onnx'' ''onnx'' = None"
    by (simp add: sample_defs rank1_session_def)
  have ld: "load_model (sample_env rank1_session) ''onnx'' = Inr rank1_session"
    by (simp add: sample_env_def)
  have ins: "get_inputs rank1_session = [\<lparr>na_name = ''input'', na_shape = [Dim 2]\<rparr>]"
    by (simp add: sample_defs rank1_session_def)
  have rk: "length (na_shape \<lparr>na_name = ''input'', na_shape = [Dim 2]\<rparr>) = 1"
    by simp
  have fl: "fs downloaded_world ''/tmp/tmpk3v9x2.onnx'' = Some ''onnx''"
    by (simp add: sample_defs rank1_session_def)
  from rank1_input_array_by_variant[OF nt fresh wr ld ins rk fl, where volume = "2.5"
         and impeller_speed = 100]
  have "run_log (snd (run_inference (sample_env rank1_session) sample_world ''onnx'' 2.5 100)) =
     [(Some [''output''], [(''input'', \<lparr>nd_shape = [2], nd_data = [2.5, 100]\<rparr>)])] \<and>
   run_log (snd (run_inference_v2 (sample_env rank1_session) downloaded_world
                   ''/tmp/tmpk3v9x2.onnx'' 2.5 100)) =
     [(None, [(''input'', \<lparr>nd_shape = [1, 2], nd_data = [2.5, 100]\<rparr>)])]"
    by (simp add: sample_defs rank1_session_def)
  with nt fresh wr ld ins rk fl show ?thesis by blast
qed

text \<open>
  C4.  For a model whose sole declared input has rank 2, every variant passes the
  runtime, under the name of that input, the two-dimensional array whose one row is the
  volume and the impeller speed, each cast to float32.  The instance below is the one of
  the specification: volume 2.5 and impeller speed 100.0 for the input \<open>input_name\<close>.
\<close>

theorem rank2_input_array:
  assumes nt: "named_temp E (fs w) = Inr p" and fresh: "fs w p = None"
    and wr: "write_error E p model_bytes = None"
    and ld: "load_model E model_bytes = Inr sess"
    and ins: "get_inputs sess = [i]"
    and rk: "length (na_shape i) = 2"
    and fl: "fs w2 model_path = Some model_bytes"
  shows "run_log (snd (run_inference E w model_bytes volume impeller_speed)) =
           run_log w @ [(Some (map na_name (get_outputs sess)),
              [(na_name i, \<lparr>nd_shape = [1, 2],
                             nd_data = [float32 E volume, float32 E impeller_speed]\<rparr>)])] \<and>
         run_log (snd (run_inference_v2 E w2 model_path volume impeller_speed)) =
           run_log w2 @ [(None,
              [(na_name i, \<lparr>nd_shape = [1, 2],
                             nd_data = [float32 E volume, float32 E impeller_speed]\<rparr>)])]"
  using run_inference_one_input(2)[OF nt fresh wr ld ins rk]
        run_inference_v2_one_input[OF fl ld ins]
  by simp

theorem rank2_input_array_witness:
  "named_temp (sample_env rank2_session) (fs sample_world) = Inr ''/tmp/tmpk3v9x2.onnx'' \<and>
   fs sample_world ''/tmp/tmpk3v9x2.onnx'' = None \<and>
   write_error (sample_env rank2_session) ''/tmp/tmpk3v9x2.onnx'' ''onnx'' = None \<and>
   load_model (sample_env rank2_session) ''onnx'' = Inr rank2_session \<and>
   get_inputs rank2_session = [\<lparr>na_name = ''input_name'', na_shape = [Dim 1, Dim 2]\<rparr>] \<and>
   length (na_shape \<lparr>na_name = ''input_name'', na_shape = [Dim 1, Dim 2]\<rparr>) = 2 \<and>
   fs downloaded_world ''/tmp/tmpk3v9x2.onnx'' = Some ''onnx'' \<and>
   run_log (snd (run_inference (sample_env rank2_session) sample_world ''onnx'' 2.5 100)) =
     [(Some [''output''], [(''input_name'', \<lparr>nd_shape = [1, 2], nd_data = [2.5, 100]\<rparr>)])] \<and>
   run_log (snd (run_inference_v2 (sample_env rank2_session) downloaded_world
                   ''/tmp/tmpk3v9x2.onnx'' 2.5 100)) =
     [(None, [(''input_name'', \<lparr>nd_shape = [1, 2], nd_data = [2.5, 100]\<rparr>)])]"
proof -
  have nt: "named_temp (sample_env rank2_session) (fs sample_world) = Inr ''/tmp/tmpk3v9x2.onnx''"
    by (simp add: sample_defs rank2_session_def)
  have fresh: "fs sample_world ''/tmp/tmpk3v9x2.onnx'' = None"
    by (simp add: sample_defs rank2_session_def)
  have wr: "write_error (sample_env rank2_session) ''/tmp/tmpk3v9x2.onnx'' ''onnx'' = None"
    by (simp add: sample_defs rank2_session_def)
  have ld: "load_model (sample_env rank2_session) ''onnx'' = Inr rank2_session"
    by (simp add: sample_env_def)
  have ins: "get_inputs rank2_session = [\<lparr>na_name = ''input_name'', na_shape = [Dim 1, Dim 2]\<rparr>]"
    by (simp add: sample_defs rank2_session_def)
  have rk: "length (na_shape \<lparr>na_name = ''input_name'', na_shape = [Dim 1, Dim 2]\<rparr>) = 2"
    by simp
  have fl: "fs downloaded_world ''/tmp/tmpk3v9x2.onnx'' = Some ''onnx''"
    by (simp add: sample_defs rank2_session_def)
  from rank2_input_array[OF nt fresh wr ld ins rk fl, where volume = "2.5"
         and impeller_speed = 100]
  have "run_log (snd (run_inference (sample_env rank2_session) sample_world ''onnx'' 2.5 100)) =
     [(Some [''output''], [(''input_name'', \<lparr>nd_shape = [1, 2], nd_data = [2.5, 100]\<rparr>)])] \<and>
   run_log (snd (run_inference_v2 (sample_env rank2_session) downloaded_world
                   ''/tmp/tmpk3v9x2.onnx'' 2.5 100)) =
     [(None, [(''input_name'', \<lparr>nd_shape = [1, 2], nd_data = [2.5, 100]\<rparr>)])]"
    by (simp add: sample_defs rank2_session_def)
  with nt fresh wr ld ins rk fl show ?thesis by blast
qed

text \<open>
  C5, as stated, fails on the download variant: its \<^verbatim>\<open>run_inference\<close> has no check of
  the rank, and for an input of shape \<open>[2, 2, 2]\<close> it calls the runtime and, when the
  runtime answers, succeeds.
\<close>

theorem run_inference_v2_rank3_runs:
  "fst (run_inference_v2 (sample_env rank3_session) downloaded_world
          ''/tmp/tmpk3v9x2.onnx'' 1 1) =
     Success ([''input''],
              [(''input'', \<lparr>nd_shape = [1, 2], nd_data = [1, 1]\<rparr>)],
              [\<lparr>na_name = ''output'', na_shape = [Dim 5]\<rparr>],
              [\<lparr>nd_shape = [1, 5], nd_data = [10, 20, 30, 40, 50]\<rparr>]) \<and>
   run_log (snd (run_inference_v2 (sample_env rank3_session) downloaded_world
                   ''/tmp/tmpk3v9x2.onnx'' 1 1)) =
     [(None, [(''input'', \<lparr>nd_shape = [1, 2], nd_data = [1, 1]\<rparr>)])]"
  by (simp add: v2_defs sample_defs rank3_session_def np_array_2d_def)

text \<open>
  C5, amended.  For a model whose sole declared input has rank 3 or more, the upload
  variants return a failure whose message holds the declared shape, and do not call the
  runtime.  The download variant does not check the rank: it calls the runtime with the
  one-row array.
\<close>

theorem rank3_input_by_variant:
  assumes nt: "named_temp E (fs w) = Inr p" and fresh: "fs w p = None"
    and wr: "write_error E p model_bytes = None"
    and ld: "load_model E model_bytes = Inr sess"
    and ins: "get_inputs sess = [i]"
    and rk: "3 \<le> length (na_shape i)"
    and fl: "fs w2 model_path = Some model_bytes"
  shows "fst (run_inference E w model_bytes volume impeller_speed) =
           Failure (''Unexpected input shape: '' @ str_shape E (na_shape i) @
                    ''. Model should accept 1D or 2D input.'') \<and>
         run_log (snd (run_inference E w model_bytes volume impeller_speed)) = run_log w \<and>
         run_log (snd (run_inference_v2 E w2 model_path volume impeller_speed)) =
           run_log w2 @ [(None,
              [(na_name i, \<lparr>nd_shape = [1, 2],
                             nd_data = [float32 E volume, float32 E impeller_speed]\<rparr>)])]"
  using run_inference_one_input(3)[OF nt fresh wr ld ins rk]
        run_inference_v2_one_input[OF fl ld ins]
  by simp

theorem rank3_input_by_variant_witness:
  "named_temp (sample_env rank3_session) (fs sample_world) = Inr ''/tmp/tmpk3v9x2.onnx'' \<and>
   fs sample_world ''/tmp/tmpk3v9x2.onnx'' = None \<and>
   write_error (sample_env rank3_session) ''/tmp/tmpk3v9x2.onnx'' ''onnx'' = None \<and>
   load_model (sample_env rank3_session) ''onnx'' = Inr rank3_session \<and>
   get_inputs rank3_session = [\<lparr>na_name = ''input'', na_shape = [Dim 2, Dim 2, Dim 2]\<rparr>] \<and>
   3 \<le> length (na_shape \<lparr>na_name = ''input'', na_shape = [Dim 2, Dim 2, Dim 2]\<rparr>) \<and>
   fs downloaded_world ''/tmp/tmpk3v9x2.onnx'' = Some ''onnx'' \<and>
   fst (run_inference (sample_env rank3_session) sample_world ''onnx'' 2.5 100) =
     Failure ''Unexpected input shape: [2, 2, 2]. Model should accept 1D or 2D input.'' \<and>
   run_log (snd (run_inference (sample_env rank3_session) sample_world ''onnx'' 2.5 100)) = [] \<and>
   run_log (snd (run_inference_v2 (sample_env rank3_session) downloaded_world
                   ''/tmp/tmpk3v9x2.onnx'' 2.5 100)) =
     [(None, [(''input'', \<lparr>nd_shape = [1, 2], nd_data = [2.5, 100]\<rparr>)])]"
proof -
  have nt: "named_temp (sample_env rank3_session) (fs sample_world) = Inr ''/tmp/tmpk3v9x2.onnx''"
    by (simp add: sample_defs rank3_session_def)
  have fresh: "fs sample_world ''/tmp/tmpk3v9x2.onnx'' = None"
    by (simp add: sample_defs rank3_session_def)
  have wr: "write_error (sample_env rank3_session) ''/tmp/tmpk3v9x2.onnx'' ''onnx'' = None"
    by (simp add: sample_defs rank3_session_def)
  have ld: "load_model (sample_env rank3_session) ''onnx'' = Inr rank3_session"
    by (simp add: sample_env_def)
  have ins: "get_inputs rank3_session = [\<lparr>na_name = ''input'', na_shape = [Dim 2, Dim 2, Dim 2]\<rparr>]"
    by (simp add: sample_defs rank3_session_def)
  have rk: "3 \<le> length (na_shape \<lparr>na_name = ''input'', na_shape = [Dim 2, Dim 2, Dim 2]\<rparr>)"
    by simp
  have fl: "fs downloaded_world ''/tmp/tmpk3v9x2.onnx'' = Some ''onnx''"
    by (simp add: sample_defs rank3_session_def)
  from rank3_input_by_variant[OF nt fresh wr ld ins rk fl, where volume = "2.5"
         and impeller_speed = 100]
  have "fst (run_inference (sample_env rank3_session) sample_world ''onnx'' 2.5 100) =
     Failure ''Unexpected input shape: [2, 2, 2]. Model should accept 1D or 2D input.'' \<and>
   run_log (snd (run_inference (sample_env rank3_session) sample_world ''onnx'' 2.5 100)) = [] \<and>
   run_log (snd (run_inference_v2 (sample_env rank3_session) downloaded_world
                   ''/tmp/tmpk3v9x2.onnx'' 2.5 100)) =
     [(None, [(''input'', \<lparr>nd_shape = [1, 2], nd_data = [2.5, 100]\<rparr>)])]"
    by (simp add: sample_defs rank3_session_def repr_shape_def repr_dim_def str_int_def str_nat.simps)
  with nt fresh wr ld ins rk fl show ?thesis by blast
qed

subsection \<open>Exceptions\<close>

text \<open>
  When the download fails, \<^verbatim>\<open>main\<close> of the download variant ends with an exception,
  whatever the environment: the \<^verbatim>\<open>try\<close> has no \<^verbatim>\<open>except\<close>, and its \<^verbatim>\<open>finally\<close> reads
  \<^verbatim>\<open>model_path\<close>, which the failed download has not bound.
\<close>

lemma main_v2_download_raises:
  assumes "map_of MODEL_OPTIONS selected_model_name = Some url"
    and "fst (download_model_from_github E w url) = Inl e"
  shows "fst (main_v2 E w selected_model_name volume impeller_speed True) =
           Some unbound_model_path"
  using assms
  by (auto simp: main_v2_def main_v2_try_def main_v2_finally_def split: prod.splits)

text \<open>
  C6.  The claim is that no exception leaves an invocation: each is caught and returned
  as a failure with its message.  The code breaks it in \<^verbatim>\<open>main\<close> of the download
  variant: with the third model selected and its address answering 404, the download
  raises, nothing catches it, and \<^verbatim>\<open>main\<close> ends with an \<^verbatim>\<open>UnboundLocalError\<close>.
\<close>

theorem main_v2_failed_download_raises:
  "fst (main_v2 (sample_env rank2_session) sample_world ''800L to 2000L'' 1 1 True) =
     Some unbound_model_path"
  by (simp add: main_v2_def MODEL_OPTIONS_def main_v2_try_def download_model_from_github_def
      main_v2_finally_def sample_env_def)

text \<open>
  C10.  When the body of the \<^verbatim>\<open>try\<close> in \<^verbatim>\<open>run_inference\<close> raises, the function returns
  the failure whose message is the string of that exception, in every environment:
  also in those where the removal of the temporary file in the handler fails.
\<close>

theorem handler_reports_original_exception:
  assumes "fst (run_inference_try E w model_bytes volume impeller_speed) = Inl e"
  shows "fst (run_inference E w model_bytes volume impeller_speed) = Failure (str_exn e)"
  using assms
  by (cases "run_inference_try E w model_bytes volume impeller_speed")
     (simp add: run_inference_def run_inference_except_def Let_def)

text \<open>
  The runtime rejects the input and the file cannot be removed: the handler's
  \<^verbatim>\<open>os.unlink\<close> raises, the file stays, and the message is the runtime's.
\<close>

theorem handler_reports_original_exception_witness:
  "fst (run_inference_try failing_env sample_world ''onnx'' 1 1) =
     Inl (PyExn ''InvalidArgument'' ''Invalid rank for input: input_name'') \<and>
   fst (unlink failing_env (fst (snd (run_inference_try failing_env sample_world ''onnx'' 1 1)))
          ''/tmp/tmpk3v9x2.onnx'') =
     Some (PyExn ''PermissionError'' ''The process cannot access the file'') \<and>
   fs (snd (run_inference failing_env sample_world ''onnx'' 1 1)) ''/tmp/tmpk3v9x2.onnx'' =
     Some ''onnx'' \<and>
   fst (run_inference failing_env sample_world ''onnx'' 1 1) =
     Failure ''Invalid rank for input: input_name''"
proof -
  have h: "fst (run_inference_try failing_env sample_world ''onnx'' 1 1) =
     Inl (PyExn ''InvalidArgument'' ''Invalid rank for input: input_name'')"
    by (simp add: v1_defs failing_env_def sample_defs rank2_session_def np_array_2d_def)
  have u: "fst (unlink failing_env
                  (fst (snd (run_inference_try failing_env sample_world ''onnx'' 1 1)))
                  ''/tmp/tmpk3v9x2.onnx'') =
     Some (PyExn ''PermissionError'' ''The process cannot access the file'')"
    by (simp add: v1_defs failing_env_def sample_defs rank2_session_def np_array_2d_def)
  have f: "fs (snd (run_inference failing_env sample_world ''onnx'' 1 1))
             ''/tmp/tmpk3v9x2.onnx'' = Some ''onnx''"
    by (simp add: v1_defs failing_env_def sample_defs rank2_session_def np_array_2d_def)
  from handler_reports_original_exception[OF h] h u f show ?thesis
    by simp
qed

subsection \<open>The outputs\<close>




subsection \<open>What the page shows\<close>

lemma upt_0_5: "[0..<5] = [0, 1, 2, 3, 4::nat]"
  by code_simp

lemma map_enumerate_nth:
  "map (\<lambda>(i, val). f i val) (enumerate 0 xs) = map (\<lambda>k. f k (xs ! k)) [0..<length xs]"
  by (rule nth_equalityI) (simp_all add: nth_enumerate_eq)

text \<open>
  On success \<^verbatim>\<open>main\<close> writes what the display block writes, and ends as it ends.
\<close>

lemma main_shows_results:
  assumes "fst (run_inference E w model_bytes volume impeller_speed) =
             Success (input_names, input_dict, output_names, outputs)"
  shows "fst (main E w (Some model_bytes) volume impeller_speed True) =
           fst (show_results E outputs) \<and>
         ui (snd (main E w (Some model_bytes) volume impeller_speed True)) =
           ui (snd (run_inference E w model_bytes volume impeller_speed)) @
           snd (show_results E outputs)"
  using assms
  by (cases "run_inference E w model_bytes volume impeller_speed")
     (simp add: main_def split: prod.splits)

lemma main_v2_try_shows_results:
  assumes "download_model_from_github E w url = (Inr model_path, w1)"
    and "fst (run_inference_v2 E w1 model_path volume impeller_speed) =
             Success (input_names, input_dict, outputs_sig, outputs)"
  shows "fst (main_v2_try E w url volume impeller_speed) = fst (show_results_v2 E outputs) \<and>
         ui (fst (snd (main_v2_try E w url volume impeller_speed))) =
           ui (snd (run_inference_v2 E w1 model_path volume impeller_speed)) @
           snd (show_results_v2 E outputs)"
  using assms
  by (cases "run_inference_v2 E w1 model_path volume impeller_speed")
     (simp add: main_v2_try_def split: prod.splits)

text \<open>
  C8.  When the inference has returned at least one array, the display block of
  \<^verbatim>\<open>main\<close> raises nothing, in either variant that has one.  With fewer than five values
  in the flattened first array it writes a warning and then the values that are there,
  reading no position beyond them; with five or more it writes the positions 0 to 4
  under the labels Shear Rate, Power, Tip Speed, Reynolds Number and Power Number, in
  that order.
\<close>

theorem show_results_labels_or_warns:
  "show_results E (out0 # rest) =
     (None,
      Subheader ''Results'' #
      (if 5 \<le> length (flatten out0) then
         [Text (''Shear Rate: '' @ str_value E (flatten out0 ! 0) @ [CHR 0x0A] @
                ''Power: '' @ str_value E (flatten out0 ! 1) @ [CHR 0x0A] @
                ''Tip Speed: '' @ str_value E (flatten out0 ! 2) @ [CHR 0x0A] @
                ''Reynolds Number: '' @ str_value E (flatten out0 ! 3) @ [CHR 0x0A] @
                ''Power Number: '' @ str_value E (flatten out0 ! 4))]
       else
         [Warning (''Output array doesn'' @ [CHR 0x27] @
                   ''t contain enough values for all the requested parameters.''),
          Write (''Available values: '' @ str_array E (flatten out0))])) \<and>
   show_results_v2 E (out0 # rest) =
     (None,
      Subheader ([CHR 0xF0, CHR 0x9F, CHR 0x93, CHR 0x8A] @ '' Results'') #
      (if 5 \<le> length (flatten out0) then
         [Write (''**Shear Rate**: '' @ str_value E (flatten out0 ! 0)),
          Write (''**Power**: '' @ str_value E (flatten out0 ! 1)),
          Write (''**Tip Speed**: '' @ str_value E (flatten out0 ! 2)),
          Write (''**Reynolds Number**: '' @ str_value E (flatten out0 ! 3)),
          Write (''**Power Number**: '' @ str_value E (flatten out0 ! 4))]
       else
         Warning ''Not enough outputs to label. Showing raw values:'' #
         map (\<lambda>k. Write (''Output '' @ str_nat (k + 1) @ '': '' @
                          str_value E (flatten out0 ! k)))
             [0..<length (flatten out0)]) @
      [DownloadButton ''Download results as CSV''
         (str_join '','' (map (py_str E) (flatten out0)))
         ''inference_results.csv'' ''text/csv''])"
  by (simp add: show_results_def show_results_v2_def py_index_def bind_exn_def Let_def
      upt_0_5 OUTPUT_LABELS_def map_enumerate_nth)

text \<open>A first array of three values.\<close>

theorem show_results_three_values:
  "show_results (sample_env rank2_session) [\<lparr>nd_shape = [3], nd_data = [10, 20, 30]\<rparr>] =
     (None,
      [Subheader ''Results'',
       Warning (''Output array doesn'' @ [CHR 0x27] @
                ''t contain enough values for all the requested parameters.''),
       Write ''Available values: [10. 20. 30.]'']) \<and>
   show_results_v2 (sample_env rank2_session) [\<lparr>nd_shape = [3], nd_data = [10, 20, 30]\<rparr>] =
     (None,
      [Subheader ([CHR 0xF0, CHR 0x9F, CHR 0x93, CHR 0x8A] @ '' Results''),
       Warning ''Not enough outputs to label. Showing raw values:'',
       Write ''Output 1: 10.0'', Write ''Output 2: 20.0'', Write ''Output 3: 30.0'',
       DownloadButton ''Download results as CSV'' ''10.0,20.0,30.0''
         ''inference_results.csv'' ''text/csv''])"
  using show_results_labels_or_warns
          [of "sample_env rank2_session" "\<lparr>nd_shape = [3], nd_data = [10, 20, 30]\<rparr>" "[]"]
  by (simp add: flatten_def sample_env_def str_int_def str_nat.simps)

subsection \<open>Repeating a call\<close>

text \<open>
  C9.  Take two calls of \<^verbatim>\<open>run_inference\<close> with the same model and the same two values,
  in any two states, the second for instance in the state the first has left.  Let the
  runtime and the cast be the same for both, and let everything else (the name given to
  the temporary file, whether writing and removing it work, the formatting) be free to
  differ.  When both calls succeed, they return the same names, the same input binding
  and the same output arrays: what the wrapper returns depends on the model, the two
  values and the runtime alone.
\<close>

theorem run_inference_repeatable:
  assumes ld: "load_model E' = load_model E"
    and rn: "session_run E' = session_run E"
    and fl: "float32 E' = float32 E"
    and first: "fst (run_inference E w model_bytes volume impeller_speed) = Success r1"
    and second: "fst (run_inference E' w' model_bytes volume impeller_speed) = Success r2"
  shows "r1 = r2"
proof -
  obtain n1 d1 o1 x1 where r1: "r1 = (n1, d1, o1, x1)"
    by (cases r1) auto
  obtain n2 d2 o2 x2 where r2: "r2 = (n2, d2, o2, x2)"
    by (cases r2) auto
  from run_inference_SuccessD[OF first[unfolded r1]] obtain sess1 :: session where
    a1: "load_model E model_bytes = Inr sess1" "n1 = map na_name (get_inputs sess1)"
        "bind_inputs (float32 E) volume impeller_speed (get_inputs sess1) [] = Inr d1"
        "o1 = map na_name (get_outputs sess1)"
        "session_run E sess1 (Some o1) d1 = Inr x1"
    by blast
  from run_inference_SuccessD[OF second[unfolded r2]] obtain sess2 :: session where
    a2: "load_model E' model_bytes = Inr sess2" "n2 = map na_name (get_inputs sess2)"
        "bind_inputs (float32 E') volume impeller_speed (get_inputs sess2) [] = Inr d2"
        "o2 = map na_name (get_outputs sess2)"
        "session_run E' sess2 (Some o2) d2 = Inr x2"
    by blast
  from a1(1) a2(1) ld have s: "sess2 = sess1"
    by simp
  from a1(3) a2(3) fl s have d: "d2 = d1"
    by simp
  from a1 a2 s d rn show ?thesis
    unfolding r1 r2 by simp
qed

text \<open>
  The second call starts in the state the first has left and gets another name for its
  temporary file.
\<close>

theorem run_inference_repeatable_witness:
  "load_model renamed_env = load_model (sample_env rank2_session) \<and>
   session_run renamed_env = session_run (sample_env rank2_session) \<and>
   float32 renamed_env = float32 (sample_env rank2_session) \<and>
   named_temp (sample_env rank2_session) (fs sample_world) = Inr ''/tmp/tmpk3v9x2.onnx'' \<and>
   named_temp renamed_env
     (fs (snd (run_inference (sample_env rank2_session) sample_world ''onnx'' 1 1))) =
     Inr ''/tmp/tmpq7w1z8.onnx'' \<and>
   fst (run_inference (sample_env rank2_session) sample_world ''onnx'' 1 1) =
     Success ([''input_name''],
              [(''input_name'', \<lparr>nd_shape = [1, 2], nd_data = [1, 1]\<rparr>)],
              [''output''], sample_outputs) \<and>
   fst (run_inference renamed_env
          (snd (run_inference (sample_env rank2_session) sample_world ''onnx'' 1 1))
          ''onnx'' 1 1) =
     Success ([''input_name''],
              [(''input_name'', \<lparr>nd_shape = [1, 2], nd_data = [1, 1]\<rparr>)],
              [''output''], sample_outputs)"
proof -
  have ld: "load_model renamed_env = load_model (sample_env rank2_session)"
    by (simp add: renamed_env_def)
  have rn: "session_run renamed_env = session_run (sample_env rank2_session)"
    by (simp add: renamed_env_def)
  have fl: "float32 renamed_env = float32 (sample_env rank2_session)"
    by (simp add: renamed_env_def)
  have n1: "named_temp (sample_env rank2_session) (fs sample_world) =
              Inr ''/tmp/tmpk3v9x2.onnx''"
    by (simp add: sample_defs)
  have n2: "named_temp renamed_env
              (fs (snd (run_inference (sample_env rank2_session) sample_world ''onnx'' 1 1))) =
              Inr ''/tmp/tmpq7w1z8.onnx''"
    by (simp add: renamed_env_def)
  have h1: "fst (run_inference (sample_env rank2_session) sample_world ''onnx'' 1 1) =
     Success ([''input_name''],
              [(''input_name'', \<lparr>nd_shape = [1, 2], nd_data = [1, 1]\<rparr>)],
              [''output''], sample_outputs)"
    by (simp add: v1_defs sample_defs rank2_session_def np_array_2d_def)
  have "\<exists>r2. fst (run_inference renamed_env
          (snd (run_inference (sample_env rank2_session) sample_world ''onnx'' 1 1))
          ''onnx'' 1 1) = Success r2"
    by (simp add: v1_defs renamed_env_def sample_defs rank2_session_def np_array_2d_def)
  then obtain r2 where h2: "fst (run_inference renamed_env
          (snd (run_inference (sample_env rank2_session) sample_world ''onnx'' 1 1))
          ''onnx'' 1 1) = Success r2"
    by blast
  from run_inference_repeatable[OF ld rn fl h1 h2] ld rn fl n1 n2 h1 h2 show ?thesis
    by simp
qed

end
